theory Spec2Isabelle
  imports Main "HOL-Library.Word"
begin

section \<open>Go values shared by the packages\<close>

text \<open>
  A Go \<^verbatim>\<open>error\<close> built by \<^verbatim>\<open>fmt.Errorf\<close> is identified by its message; the nil
  error is \<open>None\<close>. A Go function returning \<^verbatim>\<open>(T, error)\<close> is modelled as a pair,
  so that the value returned beside a non-nil error (the empty string, a nil slice) is
  part of the model.
\<close>

type_synonym error = string

text \<open>
  A call either returns or panics with a nil-pointer dereference. A call that waits on
  the stop channel either returns or is still blocked when the observation ends.
\<close>

text \<open>
  Log output (\<^verbatim>\<open>klog\<close>) is left out. \<^verbatim>\<open>defer utilruntime.HandleCrash()\<close> acts only when
  the body of \<open>Run\<close> panics, which none of the modelled bodies does.
\<close>

datatype 'a outcome = Returned 'a | Panic

datatype 'a completion = Finished 'a | Blocked

section \<open>Package statesinformer: PodMeta (api.go)\<close>

datatype PodPhase = PodPending | PodRunning | PodSucceeded | PodFailed | PodUnknown

text \<open>
  The fields of \<^verbatim>\<open>corev1.Pod\<close> that the package reads. Every other field of the
  Kubernetes object lives in the extension part of the record, so a statement about
  \<open>'a Pod_scheme\<close> holds for every choice of the remaining fields.
\<close>

record Pod =
  Namespace :: string
  Name :: string
  Phase :: PodPhase

text \<open>\<^verbatim>\<open>type PodMeta struct { Pod *corev1.Pod; CgroupDir string }\<close>; a nil pointer is \<open>None\<close>.\<close>

record 'a PodMeta =
  Pod :: "'a Pod_scheme option"
  CgroupDir :: string

text \<open>
  \<^verbatim>\<open>(*corev1.Pod).DeepCopy\<close> is the generated deep copy of the Kubernetes API types:
  \<^verbatim>\<open>if in == nil { return nil }\<close>, otherwise a fresh object with the same contents.
  HOL values are immutable, so the copy of a pod is the pod.
\<close>

definition Pod_DeepCopy :: "'a Pod_scheme option \<Rightarrow> 'a Pod_scheme option" where
  "Pod_DeepCopy p = (case p of None \<Rightarrow> None | Some pod \<Rightarrow> Some pod)"

text \<open>
  \<^verbatim>\<open>func (in *PodMeta) DeepCopy() *PodMeta\<close>: reading \<^verbatim>\<open>in.Pod\<close> and
  \<^verbatim>\<open>in.CgroupDir\<close> through a nil receiver panics; there is no nil check.
\<close>

definition PodMeta_DeepCopy :: "'a PodMeta option \<Rightarrow> 'a PodMeta outcome" where
  "PodMeta_DeepCopy i =
     (case i of
        None \<Rightarrow> Panic
      | Some m \<Rightarrow> Returned \<lparr>Pod = Pod_DeepCopy (Pod m), CgroupDir = CgroupDir m\<rparr>)"

text \<open>
  Modelled from the spec: \<^verbatim>\<open>util.GetPodKey\<close> (package pkg/util) is not available. The
  specification calls its result a deterministic namespace/name-based identifier; it is
  taken as the namespace, a slash and the name.
\<close>

definition GetPodKey :: "'a Pod_scheme \<Rightarrow> string" where
  "GetPodKey pod = Namespace pod @ ''/'' @ Name pod"

definition PodMeta_Key :: "'a PodMeta option \<Rightarrow> string" where
  "PodMeta_Key i =
     (case i of
        None \<Rightarrow> ''''
      | Some m \<Rightarrow> (case Pod m of None \<Rightarrow> '''' | Some pod \<Rightarrow> GetPodKey pod))"

definition PodMeta_IsRunningOrPending :: "'a PodMeta option \<Rightarrow> bool" where
  "PodMeta_IsRunningOrPending i =
     (case i of
        None \<Rightarrow> False
      | Some m \<Rightarrow>
          (case Pod m of
             None \<Rightarrow> False
           | Some pod \<Rightarrow> Phase pod = PodRunning \<or> Phase pod = PodPending))"

section \<open>The stop channel\<close>

text \<open>
  \<^verbatim>\<open>stopCh\<close> is closed by another task while \<open>Run\<close> executes. What a running task sees
  of it is a finite list of observations, \<open>True\<close> once the channel is closed. The receive
  \<^verbatim>\<open><-stopCh\<close> returns at the first observation that finds the channel closed, and
  is still blocked when the observations end before that.
\<close>

fun receive_stopCh :: "bool list \<Rightarrow> bool" where
  "receive_stopCh [] = False"
| "receive_stopCh (closed # later) = (if closed then True else receive_stopCh later)"

section \<open>Package impl: statesInformer (states_informer.go)\<close>

type_synonym PluginName = string

text \<open>
  \<^verbatim>\<open>informerPlugin\<close> is an interface (\<open>Setup\<close>, \<open>Start\<close>, \<open>HasSynced\<close>). A plugin is
  represented by the answer its \<open>HasSynced()\<close> gives; the calls of \<open>Setup\<close> and
  \<open>Start\<close> that the informer makes are recorded in the informer's state.
\<close>

record informerPlugin =
  synced :: bool

datatype plugin_call = Setup PluginName | Start PluginName

text \<open>
  \<^verbatim>\<open>states.informerPlugins\<close> is a Go map; the list gives its entries in the order in
  which a \<^verbatim>\<open>range\<close> loop happens to visit them.
\<close>

record statesInformer =
  informerPlugins :: "(PluginName \<times> informerPlugin) list"
  started :: bool
  calls :: "plugin_call list"

fun HasSynced_loop :: "(PluginName \<times> informerPlugin) list \<Rightarrow> bool" where
  "HasSynced_loop [] = True"
| "HasSynced_loop ((name, p) # ps) = (if \<not> synced p then False else HasSynced_loop ps)"

definition statesInformer_HasSynced :: "statesInformer \<Rightarrow> bool" where
  "statesInformer_HasSynced s = HasSynced_loop (informerPlugins s)"

definition setupPlugins :: "statesInformer \<Rightarrow> statesInformer" where
  "setupPlugins s = s\<lparr>calls := calls s @ map (\<lambda>(name, p). Setup name) (informerPlugins s)\<rparr>"

definition startPlugins :: "statesInformer \<Rightarrow> statesInformer" where
  "startPlugins s = s\<lparr>calls := calls s @ map (\<lambda>(name, p). Start name) (informerPlugins s)\<rparr>"

text \<open>
  The plugins run as tasks of their own and flip their flags while \<open>Run\<close> waits. One
  observation is the world at one moment at which the waiting \<open>Run\<close> can wake up: whether
  the stop channel is closed, whether the poll timer of the barrier has fired, and the
  state of the plugin registered under each name.
\<close>

record observation =
  stopCh_closed :: bool
  tick :: bool
  plugin_state :: "PluginName \<Rightarrow> informerPlugin"

text \<open>
  \<^verbatim>\<open>cache.InformerSynced\<close> is \<^verbatim>\<open>func() bool\<close>. The method value \<^verbatim>\<open>p.HasSynced\<close> of the
  plugin registered under a name reads that plugin's flag at the moment it is called.
  \<open>waitForSyncFunc\<close> collects one such function per registered plugin.
\<close>

type_synonym InformerSynced = "observation \<Rightarrow> bool"

fun waitForSyncFunc_loop :: "(PluginName \<times> informerPlugin) list \<Rightarrow> InformerSynced list" where
  "waitForSyncFunc_loop [] = []"
| "waitForSyncFunc_loop ((name, p) # ps) =
     (\<lambda>ob. synced (plugin_state ob name)) # waitForSyncFunc_loop ps"

definition waitForSyncFunc :: "statesInformer \<Rightarrow> InformerSynced list" where
  "waitForSyncFunc s = waitForSyncFunc_loop (informerPlugins s)"

text \<open>
  \<^verbatim>\<open>cache.WaitForCacheSync(stopCh, cacheSyncs...)\<close> of client-go. Its condition calls the
  functions in turn and fails at the first that returns false. The condition is tested
  once at once, before the stop channel is looked at. After that the wait ends with
  false as soon as the stop channel is closed, without another test, and the condition
  is tested again only when the poll timer fires while the channel is open. The result
  is \<open>None\<close> while the wait is still on at the end of the observations; otherwise it
  comes with the observations that remain, the deciding one first.
\<close>

fun cacheSyncs_done :: "InformerSynced list \<Rightarrow> observation \<Rightarrow> bool" where
  "cacheSyncs_done [] ob = True"
| "cacheSyncs_done (syncFunc # rest) ob =
     (if \<not> syncFunc ob then False else cacheSyncs_done rest ob)"

fun poll_until ::
  "observation list \<Rightarrow> InformerSynced list \<Rightarrow> (bool \<times> observation list) option" where
  "poll_until [] cacheSyncs = None"
| "poll_until (w # ws) cacheSyncs =
     (if stopCh_closed w then Some (False, w # ws)
      else if tick w \<and> cacheSyncs_done cacheSyncs w then Some (True, w # ws)
      else poll_until ws cacheSyncs)"

fun WaitForCacheSync ::
  "observation list \<Rightarrow> InformerSynced list \<Rightarrow> (bool \<times> observation list) option" where
  "WaitForCacheSync [] cacheSyncs = None"
| "WaitForCacheSync (w # ws) cacheSyncs =
     (if cacheSyncs_done cacheSyncs w then Some (True, w # ws)
      else if stopCh_closed w then Some (False, w # ws)
      else poll_until ws cacheSyncs)"

definition statesInformer_Run ::
  "statesInformer \<Rightarrow> observation list \<Rightarrow> statesInformer \<times> error option completion" where
  "statesInformer_Run s obs =
     (let s1 = startPlugins (setupPlugins s);
          waitInformersSynced = waitForSyncFunc s1
      in case WaitForCacheSync obs waitInformersSynced of
        None \<Rightarrow> (s1, Blocked)
      | Some (ok, rest) \<Rightarrow>
          if \<not> ok
          then (s1, Finished (Some ''timed out waiting for states informer caches to sync''))
          else
            (let s2 = s1\<lparr>started := True\<rparr> in
             if receive_stopCh (map stopCh_closed rest)
             then (s2, Finished None)
             else (s2, Blocked)))"

text \<open>
  Every registered plugin has synced at an observation: \<open>HasSynced()\<close> of the informer,
  with each registered plugin in the state the observation gives it.
\<close>

definition registered_synced :: "statesInformer \<Rightarrow> observation \<Rightarrow> bool" where
  "registered_synced s ob =
     statesInformer_HasSynced
       (s\<lparr>informerPlugins := map (\<lambda>(name, p). (name, plugin_state ob name)) (informerPlugins s)\<rparr>)"

section \<open>Package nodeinfo: the node CPU info collector\<close>

text \<open>
  Modelled from the spec: package \<^verbatim>\<open>metriccache\<close> is not available. The metric cache
  is a keyed store, one slot per key, last write wins; \<open>writes\<close> lists the calls of
  \<open>Set\<close> in the order they were made. \<open>NodeCPUInfoKey\<close> is the fixed key of the node CPU
  information, \<open>OtherKey\<close> stands for the keys of other collectors.
\<close>

datatype MetricKey = NodeCPUInfoKey | OtherKey string

record 'v KVStorage =
  slots :: "MetricKey \<rightharpoonup> 'v"
  writes :: "(MetricKey \<times> 'v) list"

definition KVStorage_Set :: "'v KVStorage \<Rightarrow> MetricKey \<Rightarrow> 'v \<Rightarrow> 'v KVStorage" where
  "KVStorage_Set st k v = st\<lparr>slots := (slots st)(k \<mapsto> v), writes := writes st @ [(k, v)]\<rparr>"

text \<open>
  \<^verbatim>\<open>koordletutil.GetLocalCPUInfo()\<close> reads the host; its result, a value and an error,
  is an input of the cycle. The element types of the two fields are left open.
\<close>

record ('p, 't) LocalCPUInfo =
  local_ProcessorInfos :: "'p list"
  local_TotalInfo :: 't

record ('p, 't) NodeCPUInfo =
  ProcessorInfos :: "'p list"
  TotalInfo :: 't

record ('p, 't) nodeInfoCollector =
  collectInterval :: "64 word"
  storage :: "('p, 't) NodeCPUInfo KVStorage"
  collector_started :: bool

definition nodeInfoCollector_Started :: "('p, 't) nodeInfoCollector \<Rightarrow> bool" where
  "nodeInfoCollector_Started n = collector_started n"

definition collectNodeCPUInfo ::
  "('p, 't) nodeInfoCollector \<Rightarrow> ('p, 't) LocalCPUInfo \<times> error option
     \<Rightarrow> ('p, 't) nodeInfoCollector \<times> error option" where
  "collectNodeCPUInfo n gathered =
     (case gathered of
        (localCPUInfo, Some err) \<Rightarrow> (n, Some err)
      | (localCPUInfo, None) \<Rightarrow>
          (let nodeCPUInfo = \<lparr>ProcessorInfos = local_ProcessorInfos localCPUInfo,
                              TotalInfo = local_TotalInfo localCPUInfo\<rparr>
           in (n\<lparr>storage := KVStorage_Set (storage n) NodeCPUInfoKey nodeCPUInfo\<rparr>, None)))"

text \<open>\<open>collectNodeInfo\<close> has no result: a failure is logged and the cycle ends.\<close>

definition collectNodeInfo ::
  "('p, 't) nodeInfoCollector \<Rightarrow> ('p, 't) LocalCPUInfo \<times> error option
     \<Rightarrow> ('p, 't) nodeInfoCollector" where
  "collectNodeInfo n gathered =
     (case collectNodeCPUInfo n gathered of
        (n', Some err) \<Rightarrow> n'
      | (n', None) \<Rightarrow> n'\<lparr>collector_started := True\<rparr>)"

text \<open>
  \<^verbatim>\<open>wait.Until(n.collectNodeInfo, n.collectInterval, stopCh)\<close> calls the cycle again
  and again, one call after the other, until the stop channel is closed. The list holds
  what \<open>GetLocalCPUInfo\<close> returns in each of the cycles that run.
\<close>

fun collect_cycles ::
  "('p, 't) nodeInfoCollector \<Rightarrow> (('p, 't) LocalCPUInfo \<times> error option) list
     \<Rightarrow> ('p, 't) nodeInfoCollector" where
  "collect_cycles n [] = n"
| "collect_cycles n (g # gs) = collect_cycles (collectNodeInfo n g) gs"

section \<open>Package metricsadvisor: metricAdvisor\<close>

text \<open>
  \<^verbatim>\<open>framework.Collector\<close> is an interface (\<open>Enabled\<close>, \<open>Setup\<close>, \<open>Run\<close>, \<open>Started\<close>).
  A collector is represented by the answers of \<open>Enabled()\<close> and \<open>Started()\<close> and by
  how often \<open>Setup\<close> was called on it and \<open>Run\<close> was launched for it.
\<close>

record Collector =
  Enabled :: bool
  Started :: bool
  SetupCalls :: nat
  RunCalls :: nat

text \<open>\<^verbatim>\<open>time.Duration\<close> is an \<^verbatim>\<open>int64\<close> of nanoseconds, compared as a signed number.\<close>

definition time_Second :: "64 word" where
  "time_Second = 1000000000"

record Config =
  CollectResUsedInterval :: "64 word"

record metricAdvisor =
  options_Config :: Config
  context_Collectors :: "(string \<times> Collector) list"

text \<open>
  Modelled from the spec: \<^verbatim>\<open>framework.CollectorsHasStarted\<close> is not available. The
  specification aggregates the \<open>Started\<close> flags of the enabled collectors only.
\<close>

fun CollectorsHasStarted :: "(string \<times> Collector) list \<Rightarrow> bool" where
  "CollectorsHasStarted [] = True"
| "CollectorsHasStarted ((name, collector) # cs) =
     (if \<not> Enabled collector then CollectorsHasStarted cs
      else if \<not> Started collector then False
      else CollectorsHasStarted cs)"

definition metricAdvisor_HasSynced :: "metricAdvisor \<Rightarrow> bool" where
  "metricAdvisor_HasSynced m = CollectorsHasStarted (context_Collectors m)"

fun setup_loop :: "(string \<times> Collector) list \<Rightarrow> (string \<times> Collector) list" where
  "setup_loop [] = []"
| "setup_loop ((name, collector) # cs) =
     (if \<not> Enabled collector then (name, collector) # setup_loop cs
      else (name, collector\<lparr>SetupCalls := Suc (SetupCalls collector)\<rparr>) # setup_loop cs)"

definition metricAdvisor_setup :: "metricAdvisor \<Rightarrow> metricAdvisor" where
  "metricAdvisor_setup m = m\<lparr>context_Collectors := setup_loop (context_Collectors m)\<rparr>"

fun run_loop :: "(string \<times> Collector) list \<Rightarrow> (string \<times> Collector) list" where
  "run_loop [] = []"
| "run_loop ((name, collector) # cs) =
     (if \<not> Enabled collector then (name, collector) # run_loop cs
      else (name, collector\<lparr>RunCalls := Suc (RunCalls collector)\<rparr>) # run_loop cs)"

definition metricAdvisor_Run ::
  "metricAdvisor \<Rightarrow> bool list \<Rightarrow> metricAdvisor \<times> error option completion" where
  "metricAdvisor_Run m stopCh =
     (if CollectResUsedInterval (options_Config m) <s time_Second
      then (m, Finished None)
      else
        (let m1 = metricAdvisor_setup m;
             m2 = m1\<lparr>context_Collectors := run_loop (context_Collectors m1)\<rparr>
         in if receive_stopCh stopCh then (m2, Finished None) else (m2, Blocked)))"

section \<open>Strings and paths of the Go standard library\<close>

text \<open>
  \<^verbatim>\<open>strings.Split\<close> at a one-character separator and \<^verbatim>\<open>strings.Join\<close>. Splitting
  the empty string gives one empty piece; a trailing separator gives a last empty piece.
\<close>

fun split_on :: "char \<Rightarrow> string \<Rightarrow> string list" where
  "split_on d [] = [[]]"
| "split_on d (c # cs) =
     (if c = d then [] # split_on d cs
      else (case split_on d cs of [] \<Rightarrow> [[c]] | x # xs \<Rightarrow> (c # x) # xs))"

fun join_with :: "string \<Rightarrow> string list \<Rightarrow> string" where
  "join_with sep [] = []"
| "join_with sep [x] = x"
| "join_with sep (x # y # ys) = x @ sep @ join_with sep (y # ys)"

text \<open>
  \<^verbatim>\<open>filepath.Clean\<close> on a Unix path, element by element: empty elements and \<open>.\<close> are
  dropped; \<open>..\<close> removes the element before it, is dropped at the root of a rooted path
  and is kept at the front of a relative one. The stack holds the elements kept so far,
  the last one first. The empty result is \<open>.\<close>.
\<close>

definition clean_step :: "bool \<Rightarrow> string list \<Rightarrow> string \<Rightarrow> string list" where
  "clean_step rooted stack e =
     (if e = '''' \<or> e = ''.'' then stack
      else if e = ''..'' then
        (case stack of
           [] \<Rightarrow> if rooted then [] else [''..'']
         | t # ts \<Rightarrow> if t = ''..'' then ''..'' # stack else ts)
      else e # stack)"

definition filepath_Clean :: "string \<Rightarrow> string" where
  "filepath_Clean path =
     (case path of
        [] \<Rightarrow> ''.''
      | c # cs \<Rightarrow>
          (let rooted = (c = CHR ''/'');
               stack = foldl (clean_step rooted) [] (split_on (CHR ''/'') path);
               out = (if rooted then ''/'' else '''') @ join_with ''/'' (rev stack)
           in if out = [] then ''.'' else out))"

text \<open>
  \<^verbatim>\<open>filepath.Join\<close>: the elements from the first non-empty one on are joined with
  slashes and the result is cleaned; with no non-empty element the result is empty.
\<close>

definition filepath_Join :: "string list \<Rightarrow> string" where
  "filepath_Join elem =
     (case dropWhile (\<lambda>e. e = []) elem of
        [] \<Rightarrow> []
      | e # es \<Rightarrow> filepath_Clean (join_with ''/'' (e # es)))"

text \<open>
  A plain path element: not empty, neither \<open>.\<close> nor \<open>..\<close>, and without a slash.
\<close>

definition plain_elem :: "string \<Rightarrow> bool" where
  "plain_elem e = (e \<noteq> [] \<and> e \<noteq> ''.'' \<and> e \<noteq> ''..'' \<and> CHR ''/'' \<notin> set e)"

section \<open>Package system: what the path resolver reads from it\<close>

datatype CgroupVersion = CgroupVersionV1 | CgroupVersionV2

text \<open>\<^verbatim>\<open>system.ResourceType\<close>, printed with \<^verbatim>\<open>%v\<close> in error messages.\<close>

type_synonym ResourceType = string

text \<open>
  Modelled from the spec: the cgroup resource descriptor of package \<^verbatim>\<open>system\<close> is not
  available. The specification gives it a subsystem name, used under cgroup v1 only, and
  a file name.
\<close>

record CgroupResource =
  Subfs :: string
  FileName :: string

text \<open>
  Modelled from the spec: \<^verbatim>\<open>system.CgroupPathFormatter\<close> is not available; the source
  calls its field \<open>ContainerIDParser\<close>, which returns a string and an error. The
  specification pairs it with the function that formats the directory segment of a
  container identity; both are injected per container runtime.
\<close>

record Formatter =
  ContainerDirFn :: "string \<Rightarrow> string \<times> error option"
  ContainerIDParser :: "string \<Rightarrow> string \<times> error option"

text \<open>
  The package-level state of \<^verbatim>\<open>system\<close>: \<^verbatim>\<open>Conf.CgroupRootDir\<close>, the result of
  \<^verbatim>\<open>GetCurrentCgroupVersion()\<close>, the mapping from resource types to descriptors,
  \<^verbatim>\<open>CgroupPathFormatter\<close> and the constant \<^verbatim>\<open>CPUProcsName\<close>.
\<close>

record System =
  CgroupRootDir :: string
  CurrentCgroupVersion :: CgroupVersion
  Registry :: "ResourceType \<rightharpoonup> CgroupResource"
  CgroupPathFormatter :: Formatter
  CPUProcsName :: ResourceType

text \<open>
  Modelled from the spec: \<^verbatim>\<open>system.GetCgroupResource\<close> is not available. It looks the
  descriptor of the resource type up; an unknown type is an error.
\<close>

definition GetCgroupResource :: "System \<Rightarrow> ResourceType \<Rightarrow> error + CgroupResource" where
  "GetCgroupResource sys resourceType =
     (case Registry sys resourceType of
        None \<Rightarrow> Inl ''resource not registered''
      | Some r \<Rightarrow> Inr r)"

text \<open>
  Modelled from the spec: \<^verbatim>\<open>system.GetCgroupFilePath\<close> is not available. The final path
  is \<^verbatim>\<open>{cgroupRootMountPoint}/{subsystem/ if v1}/{containerCgroupDir}/{filename}\<close>.
\<close>

definition GetCgroupFilePath :: "System \<Rightarrow> string \<Rightarrow> CgroupResource \<Rightarrow> string" where
  "GetCgroupFilePath sys containerCgroupDir r =
     CgroupRootDir sys @ ''/''
       @ (if CurrentCgroupVersion sys = CgroupVersionV1 then Subfs r @ ''/'' else '''')
       @ containerCgroupDir @ ''/'' @ FileName r"

text \<open>
  Modelled from the spec: the two naming conventions the specification names. The
  scope-suffixed form of a runtime writes the identity between the runtime's name with
  a dash and the suffix \<open>.scope\<close> (\<open>docker-7712555c.scope\<close>), and its parser accepts
  exactly the names of that form; the directory form uses the identity as it is.
\<close>

definition scopeFormatter :: "string \<Rightarrow> Formatter" where
  "scopeFormatter runtime =
     \<lparr>ContainerDirFn = (\<lambda>containerID. (runtime @ ''-'' @ containerID @ ''.scope'', None)),
      ContainerIDParser = (\<lambda>basename.
         let prefix = runtime @ ''-''; suffix = ''.scope'' in
         if length prefix + length suffix \<le> length basename
            \<and> take (length prefix) basename = prefix
            \<and> drop (length basename - length suffix) basename = suffix
         then (take (length basename - length prefix - length suffix)
                    (drop (length prefix) basename), None)
         else ('''', Some (''fail to parse container id: '' @ basename)))\<rparr>"

definition directoryFormatter :: Formatter where
  "directoryFormatter =
     \<lparr>ContainerDirFn = (\<lambda>containerID. (containerID, None)),
      ContainerIDParser = (\<lambda>basename. (basename, None))\<rparr>"

text \<open>
  Modelled from the spec: \<^verbatim>\<open>system.ParseCgroupProcs\<close> is not available. The content is
  read line by line, empty lines are skipped, every other line must be a decimal integer;
  the first line that is not one aborts the whole parse with an error and no result. The
  values are \<^verbatim>\<open>uint32\<close>, as the result type of \<open>GetPIDsInContainer\<close> has it; a decimal
  that does not fit is an error as well.
\<close>

definition is_digit :: "char \<Rightarrow> bool" where
  "is_digit c = (48 \<le> (of_char c :: nat) \<and> (of_char c :: nat) \<le> 57)"

definition is_decimal :: "string \<Rightarrow> bool" where
  "is_decimal s = (s \<noteq> [] \<and> list_all is_digit s)"

definition decimal_value :: "string \<Rightarrow> nat" where
  "decimal_value s = foldl (\<lambda>acc c. 10 * acc + (of_char c - 48)) 0 s"

definition ParseUint32 :: "string \<Rightarrow> error + 32 word" where
  "ParseUint32 s =
     (if \<not> is_decimal s then Inl (''parsing '' @ s @ '': invalid syntax'')
      else if decimal_value s < 2 ^ 32 then Inr (of_nat (decimal_value s))
      else Inl (''parsing '' @ s @ '': value out of range''))"

fun parse_lines :: "string list \<Rightarrow> 32 word list \<Rightarrow> 32 word list \<times> error option" where
  "parse_lines [] pids = (pids, None)"
| "parse_lines (l # ls) pids =
     (if l = [] then parse_lines ls pids
      else (case ParseUint32 l of
              Inl err \<Rightarrow> ([], Some err)
            | Inr p \<Rightarrow> parse_lines ls (pids @ [p])))"

definition ParseCgroupProcs :: "string \<Rightarrow> 32 word list \<times> error option" where
  "ParseCgroupProcs content = parse_lines (split_on (CHR 0x0A) content) []"

section \<open>Package util: the cgroup path resolver\<close>

text \<open>The field of \<^verbatim>\<open>corev1.ContainerStatus\<close> that identifies the container.\<close>

record ContainerStatus =
  ContainerID :: string

text \<open>
  Modelled from the spec: \<open>GetContainerCgroupParentDir\<close> is not available. The
  container's cgroup directory is the pod's parent directory with the runtime-specific
  segment of the container identity appended; a segment that cannot be formatted is an
  error.
\<close>

definition GetContainerCgroupParentDir ::
  "System \<Rightarrow> string \<Rightarrow> 'a ContainerStatus_scheme \<Rightarrow> error + string" where
  "GetContainerCgroupParentDir sys podParentDir c =
     (case ContainerDirFn (CgroupPathFormatter sys) (ContainerID c) of
        (segment, Some err) \<Rightarrow> Inl err
      | (segment, None) \<Rightarrow> Inr (podParentDir @ segment))"

definition GetContainerCgroupPath ::
  "System \<Rightarrow> string \<Rightarrow> 'a ContainerStatus_scheme \<Rightarrow> ResourceType \<Rightarrow> string \<times> error option" where
  "GetContainerCgroupPath sys podParentDir c resourceType =
     (case GetCgroupResource sys resourceType of
        Inl err \<Rightarrow>
          ('''', Some (''failed to get resource type '' @ resourceType @ '', err: '' @ err))
      | Inr resource \<Rightarrow>
          (case GetContainerCgroupParentDir sys podParentDir c of
             Inl err \<Rightarrow> ('''', Some (''failed to get container cgroup path, err: '' @ err))
           | Inr containerPath \<Rightarrow> (GetCgroupFilePath sys containerPath resource, None)))"

definition GetContainerCgroupCPUProcsPath ::
  "System \<Rightarrow> string \<Rightarrow> 'a ContainerStatus_scheme \<Rightarrow> string \<times> error option" where
  "GetContainerCgroupCPUProcsPath sys podParentDir c =
     GetContainerCgroupPath sys podParentDir c (CPUProcsName sys)"

definition GetContainerCgroupPerfPath ::
  "System \<Rightarrow> string \<Rightarrow> 'a ContainerStatus_scheme \<Rightarrow> string \<times> error option" where
  "GetContainerCgroupPerfPath sys podParentDir c =
     (case GetContainerCgroupParentDir sys podParentDir c of
        Inl err \<Rightarrow> ('''', Some err)
      | Inr containerPath \<Rightarrow>
          if CurrentCgroupVersion sys = CgroupVersionV2
          then (filepath_Join [CgroupRootDir sys, containerPath], None)
          else (filepath_Join [CgroupRootDir sys, ''perf_event/'', containerPath], None))"

definition ParseContainerID :: "System \<Rightarrow> string \<Rightarrow> string \<times> error option" where
  "ParseContainerID sys basename = ContainerIDParser (CgroupPathFormatter sys) basename"

text \<open>
  \<^verbatim>\<open>os.ReadFile\<close> is a function from paths to the content of the file or the error of
  the read. The nil slice returned beside an error is the empty list.
\<close>

definition GetPIDsInContainer ::
  "System \<Rightarrow> (string \<Rightarrow> error + string) \<Rightarrow> string \<Rightarrow> 'a ContainerStatus_scheme
     \<Rightarrow> 32 word list \<times> error option" where
  "GetPIDsInContainer sys ReadFile podParentDir c =
     (case GetContainerCgroupCPUProcsPath sys podParentDir c of
        (cgroupPath, Some err) \<Rightarrow> ([], Some err)
      | (cgroupPath, None) \<Rightarrow>
          (case ReadFile cgroupPath of
             Inl err \<Rightarrow> ([], Some err)
           | Inr rawContent \<Rightarrow> ParseCgroupProcs rawContent))"

section \<open>Joining plain paths\<close>

text \<open>
  On a rooted path of plain elements \<open>filepath.Join\<close> is concatenation with slashes: the
  trailing slash of \<open>perf_event/\<close> adds an empty element, which cleaning drops.
\<close>

lemma split_on_no_sep: "d \<notin> set s \<Longrightarrow> split_on d s = [s]"
  by (induction s) auto

lemma split_on_elem_sep: "d \<notin> set e \<Longrightarrow> split_on d (e @ d # rest) = e # split_on d rest"
  by (induction e) auto

lemma split_on_join_with:
  "es \<noteq> [] \<Longrightarrow> \<forall>e \<in> set es. d \<notin> set e \<Longrightarrow> split_on d (join_with [d] es) = es"
proof (induction es)
  case Nil
  then show ?case by simp
next
  case (Cons x xs)
  show ?case
  proof (cases xs)
    case Nil
    with Cons.prems show ?thesis by (simp add: split_on_no_sep)
  next
    case (Cons y ys)
    with Cons.prems Cons.IH show ?thesis by (simp add: split_on_elem_sep)
  qed
qed

lemma join_with_append:
  "xs \<noteq> [] \<Longrightarrow> ys \<noteq> [] \<Longrightarrow> join_with sep (xs @ ys) = join_with sep xs @ sep @ join_with sep ys"
proof (induction xs)
  case Nil
  then show ?case by simp
next
  case (Cons x xs)
  show ?case
  proof (cases xs)
    case Nil
    with Cons.prems show ?thesis by (cases ys) simp_all
  next
    case (Cons y ys')
    with Cons.prems Cons.IH show ?thesis by simp
  qed
qed

lemma foldl_clean_step_plain:
  "\<forall>e \<in> set es. e \<noteq> [] \<longrightarrow> plain_elem e
   \<Longrightarrow> foldl (clean_step rooted) stack es = rev (filter (\<lambda>e. e \<noteq> []) es) @ stack"
proof (induction es arbitrary: stack)
  case Nil
  then show ?case by simp
next
  case (Cons e es)
  show ?case
  proof (cases "e = []")
    case True
    with Cons show ?thesis by (simp add: clean_step_def)
  next
    case False
    with Cons.prems have "plain_elem e" by simp
    then have "clean_step rooted stack e = e # stack"
      by (simp add: clean_step_def plain_elem_def)
    with Cons False show ?thesis by simp
  qed
qed

lemma split_on_rooted_join:
  assumes "es \<noteq> []" and "\<forall>e \<in> set es. CHR ''/'' \<notin> set e"
  shows "split_on (CHR ''/'') (CHR ''/'' # join_with ''/'' es) = [] # es"
  using split_on_join_with [OF assms] by simp

lemma foldl_clean_step_rooted:
  assumes "\<forall>e \<in> set es. e \<noteq> [] \<longrightarrow> plain_elem e"
  shows "foldl (clean_step True) [] ([] # es) = rev (filter (\<lambda>e. e \<noteq> []) es)"
  using foldl_clean_step_plain [of "[] # es" True "[]"] assms by simp

lemma filepath_Clean_rooted:
  "filepath_Clean (CHR ''/'' # p)
          = (let stack = foldl (clean_step True) [] (split_on (CHR ''/'') (CHR ''/'' # p));
                 out = ''/'' @ join_with ''/'' (rev stack)
             in if out = [] then ''.'' else out)"
  by (simp add: filepath_Clean_def)

lemma clean_output_of_elements:
  assumes sp: "split_on (CHR ''/'') (CHR ''/'' # join_with ''/'' es) = [] # es"
      and fo: "foldl (clean_step True) [] ([] # es) = rev (filter (\<lambda>e. e \<noteq> []) es)"
  shows "(let stack = foldl (clean_step True) [] (split_on (CHR ''/'') (CHR ''/'' # join_with ''/'' es));
                 out = ''/'' @ join_with ''/'' (rev stack)
             in if out = [] then ''.'' else out) = CHR ''/'' # join_with ''/'' (filter (\<lambda>e. e \<noteq> []) es)"
  apply (subst sp)
  apply (subst fo)
  apply (simp only: Let_def rev_rev_ident)
  apply simp
  done

lemma plain_elem_no_sep: "e = [] \<or> plain_elem e \<Longrightarrow> CHR ''/'' \<notin> set e"
  by (cases "e = []") (simp_all add: plain_elem_def)

lemma filepath_Clean_rooted_elements:
  assumes "es \<noteq> []" and "\<forall>e \<in> set es. e \<noteq> [] \<longrightarrow> plain_elem e"
  shows "filepath_Clean (CHR ''/'' # join_with ''/'' es)
           = CHR ''/'' # join_with ''/'' (filter (\<lambda>e. e \<noteq> []) es)"
proof -
  have nosep: "\<forall>e \<in> set es. CHR ''/'' \<notin> set e"
  proof
    fix e assume "e \<in> set es"
    with assms(2) have "e = [] \<or> plain_elem e" by blast
    then show "CHR ''/'' \<notin> set e" by (rule plain_elem_no_sep)
  qed
  have sp: "split_on (CHR ''/'') (CHR ''/'' # join_with ''/'' es) = [] # es"
    using assms(1) nosep by (rule split_on_rooted_join)
  have fo: "foldl (clean_step True) [] ([] # es) = rev (filter (\<lambda>e. e \<noteq> []) es)"
    using assms(2) by (rule foldl_clean_step_rooted)
  show ?thesis
    unfolding filepath_Clean_rooted by (rule clean_output_of_elements [OF sp fo])
qed

lemma plain_elem_not_Nil: "plain_elem e \<Longrightarrow> e \<noteq> []"
  by (simp add: plain_elem_def)

lemma filter_plain_elems: "\<forall>e \<in> set es. plain_elem e \<Longrightarrow> filter (\<lambda>e. e \<noteq> []) es = es"
  by (induction es) (simp_all add: plain_elem_not_Nil)

lemma plain_perf_event: "plain_elem ''perf_event''"
  by (simp add: plain_elem_def)

lemma filepath_Join_root_dir:
  assumes rs: "rs \<noteq> []" "\<forall>e \<in> set rs. plain_elem e"
      and ds: "ds \<noteq> []" "\<forall>e \<in> set ds. plain_elem e"
  shows "filepath_Join [CHR ''/'' # join_with ''/'' rs, join_with ''/'' ds]
           = (CHR ''/'' # join_with ''/'' rs) @ ''/'' @ join_with ''/'' ds"
proof -
  have all: "\<forall>e \<in> set (rs @ ds). plain_elem e"
    using rs(2) ds(2) by auto
  then have plain: "\<forall>e \<in> set (rs @ ds). e \<noteq> [] \<longrightarrow> plain_elem e"
    by blast
  have ne: "rs @ ds \<noteq> []"
    using rs(1) by simp
  have app: "join_with ''/'' (rs @ ds) = join_with ''/'' rs @ ''/'' @ join_with ''/'' ds"
    using rs(1) ds(1) by (rule join_with_append)
  have "filepath_Join [CHR ''/'' # join_with ''/'' rs, join_with ''/'' ds]
          = filepath_Clean (CHR ''/'' # join_with ''/'' (rs @ ds))"
    using app by (simp add: filepath_Join_def)
  also have "\<dots> = CHR ''/'' # join_with ''/'' (filter (\<lambda>e. e \<noteq> []) (rs @ ds))"
    using ne plain by (rule filepath_Clean_rooted_elements)
  also have "\<dots> = CHR ''/'' # join_with ''/'' (rs @ ds)"
    by (simp only: filter_plain_elems [OF all])
  finally show ?thesis
    using app by simp
qed

lemma filepath_Join_root_perf_event_dir:
  assumes rs: "rs \<noteq> []" "\<forall>e \<in> set rs. plain_elem e"
      and ds: "ds \<noteq> []" "\<forall>e \<in> set ds. plain_elem e"
  shows "filepath_Join [CHR ''/'' # join_with ''/'' rs, ''perf_event/'', join_with ''/'' ds]
           = (CHR ''/'' # join_with ''/'' rs) @ ''/perf_event/'' @ join_with ''/'' ds"
proof -
  let ?mid = "[''perf_event'', []]"
  have mid_ds: "join_with ''/'' (?mid @ ds) = ''perf_event/'' @ ''/'' @ join_with ''/'' ds"
    using ds(1) by (cases ds) simp_all
  have joined: "join_with ''/'' (rs @ ?mid @ ds)
                  = join_with ''/'' rs @ ''/'' @ ''perf_event/'' @ ''/'' @ join_with ''/'' ds"
    using join_with_append [OF rs(1), of "?mid @ ds" "''/''"] mid_ds by simp
  have plain: "\<forall>e \<in> set (rs @ ?mid @ ds). e \<noteq> [] \<longrightarrow> plain_elem e"
    using rs(2) ds(2) plain_perf_event by auto
  have ne: "rs @ ?mid @ ds \<noteq> []"
    by simp
  have filt: "filter (\<lambda>e. e \<noteq> []) (rs @ ?mid @ ds) = rs @ [''perf_event''] @ ds"
    using filter_plain_elems [OF rs(2)] filter_plain_elems [OF ds(2)] by simp
  have short: "join_with ''/'' (rs @ [''perf_event''] @ ds)
                 = join_with ''/'' rs @ ''/'' @ ''perf_event'' @ ''/'' @ join_with ''/'' ds"
  proof -
    have "join_with ''/'' ([''perf_event''] @ ds) = ''perf_event'' @ ''/'' @ join_with ''/'' ds"
      using ds(1) by (cases ds) simp_all
    then show ?thesis
      using join_with_append [OF rs(1), of "[''perf_event''] @ ds" "''/''"] by simp
  qed
  have "filepath_Join [CHR ''/'' # join_with ''/'' rs, ''perf_event/'', join_with ''/'' ds]
          = filepath_Clean (CHR ''/'' # join_with ''/'' (rs @ ?mid @ ds))"
    using joined by (simp add: filepath_Join_def)
  also have "\<dots> = CHR ''/'' # join_with ''/'' (filter (\<lambda>e. e \<noteq> []) (rs @ ?mid @ ds))"
    using ne plain by (rule filepath_Clean_rooted_elements)
  also have "\<dots> = CHR ''/'' # join_with ''/'' (rs @ [''perf_event''] @ ds)"
    by (simp only: filt)
  finally show ?thesis
    using short by simp
qed

lemma GetContainerCgroupPerfPath_plain_elements:
  assumes rs: "rs \<noteq> []" "\<forall>e \<in> set rs. plain_elem e"
      and ds: "ds \<noteq> []" "\<forall>e \<in> set ds. plain_elem e"
      and root: "CgroupRootDir sys = CHR ''/'' # join_with ''/'' rs"
      and dir: "GetContainerCgroupParentDir sys podParentDir c = Inr (join_with ''/'' ds)"
  shows "GetContainerCgroupPerfPath sys podParentDir c
           = (if CurrentCgroupVersion sys = CgroupVersionV2
              then CgroupRootDir sys @ ''/'' @ join_with ''/'' ds
              else CgroupRootDir sys @ ''/perf_event/'' @ join_with ''/'' ds, None)"
  using filepath_Join_root_dir [OF rs ds] filepath_Join_root_perf_event_dir [OF rs ds]
  by (simp add: GetContainerCgroupPerfPath_def dir root)

section \<open>The cgroup path resolver\<close>

text \<open>
  Claim C1. For every pod cgroup parent directory, container and resource type whose
  descriptor and container segment resolve, the control-file path under cgroup v1 is
  the root mount point, the descriptor's subsystem, the container's cgroup directory and
  the file name, joined by slashes; under cgroup v2 it is the same path without the
  subsystem segment. \<open>GetContainerCgroupPerfPath\<close> makes the same switch: under v1 it
  joins the root, the \<open>perf_event\<close> subsystem and the container directory, under v2 the
  root and the container directory only (on plain paths the join is the concatenation
  with slashes, as \<open>GetContainerCgroupPerfPath_plain_elements\<close> shows).
\<close>

theorem GetContainerCgroupPath_version_switch:
  assumes "Registry sys resourceType = Some r"
      and "ContainerDirFn (CgroupPathFormatter sys) (ContainerID c) = (segment, None)"
  shows "GetContainerCgroupPath (sys\<lparr>CurrentCgroupVersion := CgroupVersionV1\<rparr>) podParentDir c resourceType
           = (CgroupRootDir sys @ ''/'' @ Subfs r @ ''/'' @ (podParentDir @ segment) @ ''/'' @ FileName r,
              None)
       \<and> GetContainerCgroupPath (sys\<lparr>CurrentCgroupVersion := CgroupVersionV2\<rparr>) podParentDir c resourceType
           = (CgroupRootDir sys @ ''/'' @ (podParentDir @ segment) @ ''/'' @ FileName r, None)
       \<and> GetContainerCgroupPerfPath (sys\<lparr>CurrentCgroupVersion := CgroupVersionV1\<rparr>) podParentDir c
           = (filepath_Join [CgroupRootDir sys, ''perf_event/'', podParentDir @ segment], None)
       \<and> GetContainerCgroupPerfPath (sys\<lparr>CurrentCgroupVersion := CgroupVersionV2\<rparr>) podParentDir c
           = (filepath_Join [CgroupRootDir sys, podParentDir @ segment], None)"
  using assms
  by (simp add: GetContainerCgroupPath_def GetContainerCgroupPerfPath_def GetCgroupResource_def
                GetContainerCgroupParentDir_def GetCgroupFilePath_def)

theorem GetContainerCgroupPath_version_switch_witness:
  "GetContainerCgroupPath
      \<lparr>CgroupRootDir = ''/sys/fs/cgroup'', CurrentCgroupVersion = CgroupVersionV1,
       Registry = [''cgroup.procs'' \<mapsto> \<lparr>Subfs = ''cpu'', FileName = ''cgroup.procs''\<rparr>],
       CgroupPathFormatter = scopeFormatter ''docker'', CPUProcsName = ''cgroup.procs''\<rparr>
      ''kubepods.slice/kubepods-pod7712555c.slice/'' \<lparr>ContainerID = ''7712555c''\<rparr> ''cgroup.procs''
     = (''/sys/fs/cgroup/cpu/kubepods.slice/kubepods-pod7712555c.slice/docker-7712555c.scope/cgroup.procs'',
        None)
   \<and> GetContainerCgroupPath
      \<lparr>CgroupRootDir = ''/sys/fs/cgroup'', CurrentCgroupVersion = CgroupVersionV2,
       Registry = [''cgroup.procs'' \<mapsto> \<lparr>Subfs = ''cpu'', FileName = ''cgroup.procs''\<rparr>],
       CgroupPathFormatter = scopeFormatter ''docker'', CPUProcsName = ''cgroup.procs''\<rparr>
      ''kubepods.slice/kubepods-pod7712555c.slice/'' \<lparr>ContainerID = ''7712555c''\<rparr> ''cgroup.procs''
     = (''/sys/fs/cgroup/kubepods.slice/kubepods-pod7712555c.slice/docker-7712555c.scope/cgroup.procs'',
        None)
   \<and> GetContainerCgroupPerfPath
      \<lparr>CgroupRootDir = ''/sys/fs/cgroup'', CurrentCgroupVersion = CgroupVersionV1,
       Registry = [''cgroup.procs'' \<mapsto> \<lparr>Subfs = ''cpu'', FileName = ''cgroup.procs''\<rparr>],
       CgroupPathFormatter = scopeFormatter ''docker'', CPUProcsName = ''cgroup.procs''\<rparr>
      ''kubepods.slice/kubepods-pod7712555c.slice/'' \<lparr>ContainerID = ''7712555c''\<rparr>
     = (''/sys/fs/cgroup/perf_event/kubepods.slice/kubepods-pod7712555c.slice/docker-7712555c.scope'',
        None)
   \<and> GetContainerCgroupPerfPath
      \<lparr>CgroupRootDir = ''/sys/fs/cgroup'', CurrentCgroupVersion = CgroupVersionV2,
       Registry = [''cgroup.procs'' \<mapsto> \<lparr>Subfs = ''cpu'', FileName = ''cgroup.procs''\<rparr>],
       CgroupPathFormatter = scopeFormatter ''docker'', CPUProcsName = ''cgroup.procs''\<rparr>
      ''kubepods.slice/kubepods-pod7712555c.slice/'' \<lparr>ContainerID = ''7712555c''\<rparr>
     = (''/sys/fs/cgroup/kubepods.slice/kubepods-pod7712555c.slice/docker-7712555c.scope'', None)"
proof -
  let ?sys = "\<lparr>CgroupRootDir = ''/sys/fs/cgroup'', CurrentCgroupVersion = CgroupVersionV1,
       Registry = [''cgroup.procs'' \<mapsto> \<lparr>Subfs = ''cpu'', FileName = ''cgroup.procs''\<rparr>],
       CgroupPathFormatter = scopeFormatter ''docker'', CPUProcsName = ''cgroup.procs''\<rparr>"
  let ?c = "\<lparr>ContainerID = ''7712555c''\<rparr>"
  have reg: "Registry ?sys ''cgroup.procs'' = Some \<lparr>Subfs = ''cpu'', FileName = ''cgroup.procs''\<rparr>"
    by simp
  have seg: "ContainerDirFn (CgroupPathFormatter ?sys) (ContainerID ?c)
               = (''docker-7712555c.scope'', None)"
    by (simp add: scopeFormatter_def)
  have join1: "filepath_Join [''/sys/fs/cgroup'', ''perf_event/'',
                   ''kubepods.slice/kubepods-pod7712555c.slice/docker-7712555c.scope'']
               = ''/sys/fs/cgroup/perf_event/kubepods.slice/kubepods-pod7712555c.slice/docker-7712555c.scope''"
    by (simp add: filepath_Join_def filepath_Clean_def clean_step_def)
  have join2: "filepath_Join [''/sys/fs/cgroup'',
                   ''kubepods.slice/kubepods-pod7712555c.slice/docker-7712555c.scope'']
               = ''/sys/fs/cgroup/kubepods.slice/kubepods-pod7712555c.slice/docker-7712555c.scope''"
    by (simp add: filepath_Join_def filepath_Clean_def clean_step_def)
  show ?thesis
    using GetContainerCgroupPath_version_switch
            [OF reg seg, of "''kubepods.slice/kubepods-pod7712555c.slice/''"] join1 join2
    by simp
qed

lemma scope_round_trip:
  "ContainerIDParser (scopeFormatter runtime) (runtime @ ''-'' @ containerID @ ''.scope'')
     = (containerID, None)"
  by (simp add: scopeFormatter_def Let_def)

text \<open>
  Claim C2. For the directory form and for the scope-suffixed form of every runtime,
  and for every container identity, the identity formats to a segment without error and
  \<open>ParseContainerID\<close> applied to that segment returns the identity and no error.
\<close>

theorem ParseContainerID_round_trip:
  assumes "CgroupPathFormatter sys = directoryFormatter
           \<or> (\<exists>runtime. CgroupPathFormatter sys = scopeFormatter runtime)"
  shows "\<exists>segment. ContainerDirFn (CgroupPathFormatter sys) containerID = (segment, None)
           \<and> ParseContainerID sys segment = (containerID, None)"
  using assms
proof
  assume "CgroupPathFormatter sys = directoryFormatter"
  then show ?thesis by (simp add: ParseContainerID_def directoryFormatter_def)
next
  assume "\<exists>runtime. CgroupPathFormatter sys = scopeFormatter runtime"
  then obtain runtime where f: "CgroupPathFormatter sys = scopeFormatter runtime" ..
  have "ContainerDirFn (scopeFormatter runtime) containerID
          = (runtime @ ''-'' @ containerID @ ''.scope'', None)"
    by (simp add: scopeFormatter_def)
  with f scope_round_trip [of runtime containerID] show ?thesis
    by (simp add: ParseContainerID_def)
qed

theorem ParseContainerID_round_trip_witness:
  "ParseContainerID
      \<lparr>CgroupRootDir = ''/sys/fs/cgroup'', CurrentCgroupVersion = CgroupVersionV1,
       Registry = Map.empty, CgroupPathFormatter = scopeFormatter ''docker'',
       CPUProcsName = ''cgroup.procs''\<rparr>
      ''docker-7712555c_ce62_454a_9e18_9ff0217b8941.scope''
     = (''7712555c_ce62_454a_9e18_9ff0217b8941'', None)
   \<and> ParseContainerID
      \<lparr>CgroupRootDir = ''/sys/fs/cgroup'', CurrentCgroupVersion = CgroupVersionV1,
       Registry = Map.empty, CgroupPathFormatter = directoryFormatter,
       CPUProcsName = ''cgroup.procs''\<rparr>
      ''7712555c_ce62_454a_9e18_9ff0217b8941''
     = (''7712555c_ce62_454a_9e18_9ff0217b8941'', None)"
proof -
  let ?scope = "\<lparr>CgroupRootDir = ''/sys/fs/cgroup'', CurrentCgroupVersion = CgroupVersionV1,
       Registry = Map.empty, CgroupPathFormatter = scopeFormatter ''docker'',
       CPUProcsName = ''cgroup.procs''\<rparr>"
  let ?dir = "\<lparr>CgroupRootDir = ''/sys/fs/cgroup'', CurrentCgroupVersion = CgroupVersionV1,
       Registry = Map.empty, CgroupPathFormatter = directoryFormatter,
       CPUProcsName = ''cgroup.procs''\<rparr>"
  have s: "CgroupPathFormatter ?scope = directoryFormatter
           \<or> (\<exists>runtime. CgroupPathFormatter ?scope = scopeFormatter runtime)"
    by auto
  have d: "CgroupPathFormatter ?dir = directoryFormatter
           \<or> (\<exists>runtime. CgroupPathFormatter ?dir = scopeFormatter runtime)"
    by simp
  have a: "ParseContainerID ?scope ''docker-7712555c_ce62_454a_9e18_9ff0217b8941.scope''
             = (''7712555c_ce62_454a_9e18_9ff0217b8941'', None)"
    using ParseContainerID_round_trip [OF s, of "''7712555c_ce62_454a_9e18_9ff0217b8941''"]
    by (simp add: scopeFormatter_def)
  have b: "ParseContainerID ?dir ''7712555c_ce62_454a_9e18_9ff0217b8941''
             = (''7712555c_ce62_454a_9e18_9ff0217b8941'', None)"
    using ParseContainerID_round_trip [OF d, of "''7712555c_ce62_454a_9e18_9ff0217b8941''"]
    by (simp add: directoryFormatter_def)
  from a b show ?thesis by (rule conjI)
qed

text \<open>
  Claim C3. For a resource type that has no descriptor, \<open>GetContainerCgroupPath\<close>
  returns the empty path together with an error that wraps the lookup failure, whatever
  the other arguments and the cgroup version are.
\<close>

theorem GetContainerCgroupPath_unknown_resource:
  assumes "Registry sys resourceType = None"
  shows "fst (GetContainerCgroupPath sys podParentDir c resourceType) = ''''
       \<and> (\<exists>err. snd (GetContainerCgroupPath sys podParentDir c resourceType)
                   = Some (''failed to get resource type '' @ resourceType @ '', err: '' @ err))"
  using assms by (simp add: GetContainerCgroupPath_def GetCgroupResource_def)

theorem GetContainerCgroupPath_unknown_resource_witness:
  "fst (GetContainerCgroupPath
      \<lparr>CgroupRootDir = ''/sys/fs/cgroup'', CurrentCgroupVersion = CgroupVersionV1,
       Registry = [''cgroup.procs'' \<mapsto> \<lparr>Subfs = ''cpu'', FileName = ''cgroup.procs''\<rparr>],
       CgroupPathFormatter = scopeFormatter ''docker'', CPUProcsName = ''cgroup.procs''\<rparr>
      ''kubepods.slice/kubepods-pod7712555c.slice/'' \<lparr>ContainerID = ''7712555c''\<rparr> ''cpu.unknown'')
     = ''''
   \<and> snd (GetContainerCgroupPath
      \<lparr>CgroupRootDir = ''/sys/fs/cgroup'', CurrentCgroupVersion = CgroupVersionV1,
       Registry = [''cgroup.procs'' \<mapsto> \<lparr>Subfs = ''cpu'', FileName = ''cgroup.procs''\<rparr>],
       CgroupPathFormatter = scopeFormatter ''docker'', CPUProcsName = ''cgroup.procs''\<rparr>
      ''kubepods.slice/kubepods-pod7712555c.slice/'' \<lparr>ContainerID = ''7712555c''\<rparr> ''cpu.unknown'')
     \<noteq> None"
proof -
  let ?sys = "\<lparr>CgroupRootDir = ''/sys/fs/cgroup'', CurrentCgroupVersion = CgroupVersionV1,
       Registry = [''cgroup.procs'' \<mapsto> \<lparr>Subfs = ''cpu'', FileName = ''cgroup.procs''\<rparr>],
       CgroupPathFormatter = scopeFormatter ''docker'', CPUProcsName = ''cgroup.procs''\<rparr>"
  have unknown: "Registry ?sys ''cpu.unknown'' = None"
    by simp
  show ?thesis
    using GetContainerCgroupPath_unknown_resource
            [OF unknown, of "''kubepods.slice/kubepods-pod7712555c.slice/''" "\<lparr>ContainerID = ''7712555c''\<rparr>"]
    by auto
qed

section \<open>The process list\<close>

lemma GetPIDsInContainer_parses_the_file:
  "GetContainerCgroupCPUProcsPath sys podParentDir c = (cgroupPath, None)
   \<Longrightarrow> ReadFile cgroupPath = Inr rawContent
   \<Longrightarrow> GetPIDsInContainer sys ReadFile podParentDir c = ParseCgroupProcs rawContent"
  by (simp add: GetPIDsInContainer_def)

lemma parse_lines_bad_line:
  "\<exists>l \<in> set ls. l \<noteq> [] \<and> \<not> is_decimal l \<Longrightarrow> \<exists>err. parse_lines ls pids = ([], Some err)"
proof (induction ls arbitrary: pids)
  case Nil
  then show ?case by simp
next
  case (Cons l ls)
  show ?case
  proof (cases "l = []")
    case True
    with Cons show ?thesis by simp
  next
    case nonempty: False
    show ?thesis
    proof (cases "ParseUint32 l")
      case (Inl err)
      with nonempty show ?thesis by simp
    next
      case (Inr p)
      then have "is_decimal l"
        by (auto simp: ParseUint32_def split: if_splits)
      with Cons.prems have "\<exists>l \<in> set ls. l \<noteq> [] \<and> \<not> is_decimal l" by auto
      then obtain err where "parse_lines ls (pids @ [p]) = ([], Some err)"
        using Cons.IH by blast
      with nonempty Inr show ?thesis by simp
    qed
  qed
qed

text \<open>
  Claim C4. Parsing the three lines 123, 456 and 789, each ended by a newline, gives the
  three numbers and no error; parsing the empty content gives no number and no error;
  and every content with a non-empty line that is not a decimal integer gives an error
  and no number at all.
\<close>

theorem ParseCgroupProcs_examples_and_strictness:
  "ParseCgroupProcs ''123\<newline>456\<newline>789\<newline>'' = ([123, 456, 789], None)
   \<and> ParseCgroupProcs '''' = ([], None)
   \<and> (\<forall>content. (\<exists>l \<in> set (split_on (CHR 0x0A) content). l \<noteq> [] \<and> \<not> is_decimal l)
         \<longrightarrow> (\<exists>err. ParseCgroupProcs content = ([], Some err)))"
proof (intro conjI allI impI)
  show "ParseCgroupProcs ''123\<newline>456\<newline>789\<newline>'' = ([123, 456, 789], None)"
    by (simp add: ParseCgroupProcs_def ParseUint32_def is_decimal_def is_digit_def decimal_value_def)
  show "ParseCgroupProcs '''' = ([], None)"
    by (simp add: ParseCgroupProcs_def)
next
  fix content
  assume "\<exists>l \<in> set (split_on (CHR 0x0A) content). l \<noteq> [] \<and> \<not> is_decimal l"
  then show "\<exists>err. ParseCgroupProcs content = ([], Some err)"
    unfolding ParseCgroupProcs_def by (rule parse_lines_bad_line)
qed

theorem ParseCgroupProcs_witness:
  "(\<exists>err. ParseCgroupProcs ''123\<newline>4x6\<newline>789\<newline>'' = ([], Some err))
   \<and> ParseCgroupProcs ''123\<newline>456\<newline>789\<newline>'' = ([123, 456, 789], None)"
proof -
  have bad: "\<exists>l \<in> set (split_on (CHR 0x0A) ''123\<newline>4x6\<newline>789\<newline>''). l \<noteq> [] \<and> \<not> is_decimal l"
    by (simp add: is_decimal_def is_digit_def)
  show ?thesis
    using ParseCgroupProcs_examples_and_strictness bad by blast
qed

section \<open>PodMeta: key and copy\<close>

lemma GetPodKey_not_empty: "GetPodKey pod \<noteq> ''''"
  by (simp add: GetPodKey_def)

text \<open>
  Claim C9. \<open>PodMeta.Key()\<close> is the empty string exactly when the meta is nil or its pod
  reference is nil; when the pod is present the key depends on the namespace and the
  name only: two metas whose pods agree on both have the same key, whatever their other
  pod fields and their cgroup directories are.
\<close>

theorem PodMeta_Key_sentinel_and_determinism:
  fixes i :: "'a PodMeta option"
  shows "(PodMeta_Key i = '''' \<longleftrightarrow> (i = None \<or> (\<exists>m. i = Some m \<and> Pod m = None)))
   \<and> (\<forall>(m :: 'a PodMeta) (m' :: 'a PodMeta) pod pod'.
         Pod m = Some pod \<and> Pod m' = Some pod'
         \<and> Namespace pod = Namespace pod' \<and> Name pod = Name pod'
         \<longrightarrow> PodMeta_Key (Some m) = PodMeta_Key (Some m'))"
proof (rule conjI)
  show "PodMeta_Key i = '''' \<longleftrightarrow> (i = None \<or> (\<exists>m. i = Some m \<and> Pod m = None))"
  proof (cases i)
    case None
    then show ?thesis by (simp add: PodMeta_Key_def)
  next
    case (Some m)
    then show ?thesis
      by (cases "Pod m") (simp_all add: PodMeta_Key_def GetPodKey_not_empty)
  qed
next
  show "\<forall>(m :: 'a PodMeta) (m' :: 'a PodMeta) pod pod'.
         Pod m = Some pod \<and> Pod m' = Some pod'
         \<and> Namespace pod = Namespace pod' \<and> Name pod = Name pod'
         \<longrightarrow> PodMeta_Key (Some m) = PodMeta_Key (Some m')"
    by (simp add: PodMeta_Key_def GetPodKey_def)
qed

theorem PodMeta_Key_witness:
  "PodMeta_Key (Some \<lparr>Pod = Some \<lparr>Namespace = ''kube-system'', Name = ''dns'', Phase = PodRunning\<rparr>,
                      CgroupDir = ''kubepods.slice/a''\<rparr>)
   = PodMeta_Key (Some \<lparr>Pod = Some \<lparr>Namespace = ''kube-system'', Name = ''dns'', Phase = PodFailed\<rparr>,
                        CgroupDir = ''kubepods.slice/b''\<rparr>)
   \<and> PodMeta_Key (Some \<lparr>Pod = Some \<lparr>Namespace = ''kube-system'', Name = ''dns'', Phase = PodRunning\<rparr>,
                        CgroupDir = ''kubepods.slice/a''\<rparr>) \<noteq> ''''
   \<and> PodMeta_Key (Some \<lparr>Pod = (None :: Pod option), CgroupDir = ''kubepods.slice/a''\<rparr>) = ''''
   \<and> PodMeta_Key (None :: unit PodMeta option) = ''''"
proof -
  let ?p = "\<lparr>Namespace = ''kube-system'', Name = ''dns'', Phase = PodRunning\<rparr>"
  let ?q = "\<lparr>Namespace = ''kube-system'', Name = ''dns'', Phase = PodFailed\<rparr>"
  let ?a = "\<lparr>Pod = Some ?p, CgroupDir = ''kubepods.slice/a''\<rparr>"
  let ?b = "\<lparr>Pod = Some ?q, CgroupDir = ''kubepods.slice/b''\<rparr>"
  let ?c = "\<lparr>Pod = (None :: Pod option), CgroupDir = ''kubepods.slice/a''\<rparr>"
  note det = PodMeta_Key_sentinel_and_determinism [of "Some ?a", THEN conjunct2, rule_format]
  have same: "PodMeta_Key (Some ?a) = PodMeta_Key (Some ?b)"
    by (rule det [of ?a ?p ?b ?q]) simp
  have key: "PodMeta_Key (Some ?a) \<noteq> ''''"
    using PodMeta_Key_sentinel_and_determinism [of "Some ?a"] by simp
  have nopod: "PodMeta_Key (Some ?c) = ''''"
    using PodMeta_Key_sentinel_and_determinism [of "Some ?c"] by simp
  have nometa: "PodMeta_Key (None :: unit PodMeta option) = ''''"
    using PodMeta_Key_sentinel_and_determinism [of "None :: unit PodMeta option"] by simp
  from same key nopod nometa show ?thesis by blast
qed

text \<open>
  Claim C10, as stated, expects a panic for a meta whose pod reference is nil. The copy of
  a nil pod is nil, so for the non-nil meta below \<open>DeepCopy\<close> returns a copy and does not
  panic.
\<close>

theorem PodMeta_DeepCopy_nil_pod_counterexample:
  "PodMeta_DeepCopy (Some \<lparr>Pod = (None :: Pod option), CgroupDir = ''kubepods.slice/pod1''\<rparr>)
     = Returned \<lparr>Pod = None, CgroupDir = ''kubepods.slice/pod1''\<rparr>
   \<and> PodMeta_DeepCopy (Some \<lparr>Pod = (None :: Pod option), CgroupDir = ''kubepods.slice/pod1''\<rparr>)
       \<noteq> Panic"
  by (simp add: PodMeta_DeepCopy_def Pod_DeepCopy_def)

text \<open>
  Claim C10, amended. \<open>PodMeta.DeepCopy\<close> panics exactly when the receiver itself is nil, a
  case in which \<open>Key()\<close> and \<open>IsRunningOrPending()\<close> return their sentinels. For every
  non-nil meta, also one whose pod reference is nil, it returns a copy with an equal pod
  reference (nil for nil) and the same cgroup directory, and \<open>Key()\<close> and
  \<open>IsRunningOrPending()\<close> return their sentinels when the pod reference is nil.
\<close>

theorem PodMeta_DeepCopy_total_on_non_nil:
  "(PodMeta_DeepCopy i = Panic \<longleftrightarrow> i = None)
   \<and> (\<forall>m. i = Some m \<longrightarrow>
         PodMeta_DeepCopy i = Returned \<lparr>Pod = Pod m, CgroupDir = CgroupDir m\<rparr>)
   \<and> (\<forall>m. i = Some m \<and> Pod m = None \<longrightarrow>
         PodMeta_DeepCopy i = Returned \<lparr>Pod = None, CgroupDir = CgroupDir m\<rparr>
         \<and> PodMeta_Key i = '''' \<and> \<not> PodMeta_IsRunningOrPending i)
   \<and> (i = None \<longrightarrow> PodMeta_Key i = '''' \<and> \<not> PodMeta_IsRunningOrPending i)"
  by (cases i)
     (auto simp: PodMeta_DeepCopy_def Pod_DeepCopy_def PodMeta_Key_def
                 PodMeta_IsRunningOrPending_def split: option.splits)

theorem PodMeta_DeepCopy_witness:
  "PodMeta_DeepCopy (Some \<lparr>Pod = (None :: Pod option), CgroupDir = ''kubepods.slice/pod2''\<rparr>)
     = Returned \<lparr>Pod = None, CgroupDir = ''kubepods.slice/pod2''\<rparr>
   \<and> PodMeta_Key (Some \<lparr>Pod = (None :: Pod option), CgroupDir = ''kubepods.slice/pod2''\<rparr>) = ''''
   \<and> PodMeta_DeepCopy (None :: unit PodMeta option) = Panic"
  using PodMeta_DeepCopy_total_on_non_nil
          [of "Some \<lparr>Pod = (None :: Pod option), CgroupDir = ''kubepods.slice/pod2''\<rparr>"]
        PodMeta_DeepCopy_total_on_non_nil [of "None :: unit PodMeta option"]
  by simp

section \<open>Plugin registries: aggregate readiness\<close>

lemma HasSynced_loop_iff: "HasSynced_loop ps \<longleftrightarrow> (\<forall>(name, p) \<in> set ps. synced p)"
  by (induction ps rule: HasSynced_loop.induct) auto

lemma CollectorsHasStarted_iff:
  "CollectorsHasStarted cs \<longleftrightarrow> (\<forall>(name, c) \<in> set cs. Enabled c \<longrightarrow> Started c)"
  by (induction cs rule: CollectorsHasStarted.induct) auto

text \<open>
  Claim C5. For every state of the informer registry, \<open>statesInformer.HasSynced()\<close> is
  true exactly when every registered plugin's \<open>HasSynced()\<close> is true (the informer
  interface has no enablement gate: every registered plugin counts). For every state of
  the collector registry, \<open>metricAdvisor.HasSynced()\<close> is true exactly when every enabled
  collector's \<open>Started()\<close> is true. In both, one unready enabled plugin makes the
  aggregate false, in whatever order the registry is visited.
\<close>

theorem aggregate_HasSynced_iff_all_enabled_ready:
  "(statesInformer_HasSynced s \<longleftrightarrow> (\<forall>(name, p) \<in> set (informerPlugins s). synced p))
   \<and> (metricAdvisor_HasSynced m
        \<longleftrightarrow> (\<forall>(name, c) \<in> set (context_Collectors m). Enabled c \<longrightarrow> Started c))"
  by (simp add: statesInformer_HasSynced_def metricAdvisor_HasSynced_def
                HasSynced_loop_iff CollectorsHasStarted_iff)

theorem aggregate_HasSynced_witness:
  "\<not> statesInformer_HasSynced
        \<lparr>informerPlugins = [(''nodeInformer'', \<lparr>synced = True\<rparr>), (''podsInformer'', \<lparr>synced = False\<rparr>)],
         started = False, calls = []\<rparr>
   \<and> statesInformer_HasSynced
        \<lparr>informerPlugins = [(''nodeInformer'', \<lparr>synced = True\<rparr>), (''podsInformer'', \<lparr>synced = True\<rparr>)],
         started = False, calls = []\<rparr>
   \<and> metricAdvisor_HasSynced
        \<lparr>options_Config = \<lparr>CollectResUsedInterval = 1000000000\<rparr>,
         context_Collectors =
           [(''NodeInfoCollector'', \<lparr>Enabled = True, Started = True, SetupCalls = 1, RunCalls = 1\<rparr>),
            (''Disabled'', \<lparr>Enabled = False, Started = False, SetupCalls = 0, RunCalls = 0\<rparr>)]\<rparr>
   \<and> \<not> metricAdvisor_HasSynced
        \<lparr>options_Config = \<lparr>CollectResUsedInterval = 1000000000\<rparr>,
         context_Collectors =
           [(''NodeInfoCollector'', \<lparr>Enabled = True, Started = False, SetupCalls = 1, RunCalls = 1\<rparr>)]\<rparr>"
proof -
  let ?s1 = "\<lparr>informerPlugins = [(''nodeInformer'', \<lparr>synced = True\<rparr>), (''podsInformer'', \<lparr>synced = False\<rparr>)],
         started = False, calls = []\<rparr>"
  let ?s2 = "\<lparr>informerPlugins = [(''nodeInformer'', \<lparr>synced = True\<rparr>), (''podsInformer'', \<lparr>synced = True\<rparr>)],
         started = False, calls = []\<rparr>"
  let ?m1 = "\<lparr>options_Config = \<lparr>CollectResUsedInterval = 1000000000\<rparr>,
         context_Collectors =
           [(''NodeInfoCollector'', \<lparr>Enabled = True, Started = True, SetupCalls = 1, RunCalls = 1\<rparr>),
            (''Disabled'', \<lparr>Enabled = False, Started = False, SetupCalls = 0, RunCalls = 0\<rparr>)]\<rparr>"
  let ?m2 = "\<lparr>options_Config = \<lparr>CollectResUsedInterval = 1000000000\<rparr>,
         context_Collectors =
           [(''NodeInfoCollector'', \<lparr>Enabled = True, Started = False, SetupCalls = 1, RunCalls = 1\<rparr>)]\<rparr>"
  have a: "\<not> statesInformer_HasSynced ?s1"
    using aggregate_HasSynced_iff_all_enabled_ready [of ?s1 ?m1] by simp
  have b: "statesInformer_HasSynced ?s2"
    using aggregate_HasSynced_iff_all_enabled_ready [of ?s2 ?m1] by simp
  have c: "metricAdvisor_HasSynced ?m1"
    using aggregate_HasSynced_iff_all_enabled_ready [of ?s1 ?m1] by simp
  have d: "\<not> metricAdvisor_HasSynced ?m2"
    using aggregate_HasSynced_iff_all_enabled_ready [of ?s1 ?m2] by simp
  from a b c d show ?thesis by blast
qed

section \<open>statesInformer.Run: the synchronization barrier\<close>

lemma receive_stopCh_iff: "receive_stopCh bs \<longleftrightarrow> (\<exists>b \<in> set bs. b)"
  by (induction bs) auto

lemma cacheSyncs_done_waitForSyncFunc_loop:
  "cacheSyncs_done (waitForSyncFunc_loop ps) ob
     = HasSynced_loop (map (\<lambda>(name, p). (name, plugin_state ob name)) ps)"
  by (induction ps rule: waitForSyncFunc_loop.induct) simp_all

lemma cacheSyncs_done_registered:
  "cacheSyncs_done (waitForSyncFunc (startPlugins (setupPlugins s))) ob = registered_synced s ob"
  by (simp add: waitForSyncFunc_def startPlugins_def setupPlugins_def registered_synced_def
                statesInformer_HasSynced_def cacheSyncs_done_waitForSyncFunc_loop)

lemma registered_synced_iff:
  "registered_synced s ob \<longleftrightarrow> (\<forall>(name, p) \<in> set (informerPlugins s). synced (plugin_state ob name))"
proof -
  have "HasSynced_loop (map (\<lambda>(name, p). (name, plugin_state ob name)) ps)
          \<longleftrightarrow> (\<forall>(name, p) \<in> set ps. synced (plugin_state ob name))" for ps
    by (induction ps) (auto split: if_splits)
  then show ?thesis
    by (simp add: registered_synced_def statesInformer_HasSynced_def)
qed

lemma poll_until_skip:
  "\<forall>ob \<in> set pre. \<not> stopCh_closed ob \<and> \<not> (tick ob \<and> cacheSyncs_done cs ob)
   \<Longrightarrow> poll_until (pre @ rest) cs = poll_until rest cs"
  by (induction pre) auto

lemma started_setup_start: "started (startPlugins (setupPlugins s)) = started s"
  by (simp add: startPlugins_def setupPlugins_def)

text \<open>
  Claim C6, as stated, names the error "timed out waiting for caches to sync" and lets
  \<open>Run\<close> go on to the started flag once all plugins have synced before the cancellation.
  With one unsynced plugin and the stop channel closed at the first poll, the message of
  the error is another one. And when the plugin syncs after the first poll and the stop
  channel is closed after that, but before the poll timer fires again, \<open>Run\<close> returns the
  error and leaves the started flag false: no poll has seen the plugin synced.
\<close>

theorem statesInformer_Run_claim_counterexample:
  "snd (statesInformer_Run
          \<lparr>informerPlugins = [(''nodeInformer'', \<lparr>synced = False\<rparr>)], started = False, calls = []\<rparr>
          [\<lparr>stopCh_closed = True, tick = False, plugin_state = (\<lambda>name. \<lparr>synced = False\<rparr>)\<rparr>])
     = Finished (Some ''timed out waiting for states informer caches to sync'')
   \<and> snd (statesInformer_Run
          \<lparr>informerPlugins = [(''nodeInformer'', \<lparr>synced = False\<rparr>)], started = False, calls = []\<rparr>
          [\<lparr>stopCh_closed = True, tick = False, plugin_state = (\<lambda>name. \<lparr>synced = False\<rparr>)\<rparr>])
     \<noteq> Finished (Some ''timed out waiting for caches to sync'')
   \<and> statesInformer_Run
          \<lparr>informerPlugins = [(''nodeInformer'', \<lparr>synced = False\<rparr>)], started = False, calls = []\<rparr>
          [\<lparr>stopCh_closed = False, tick = False, plugin_state = (\<lambda>name. \<lparr>synced = False\<rparr>)\<rparr>,
           \<lparr>stopCh_closed = False, tick = False, plugin_state = (\<lambda>name. \<lparr>synced = True\<rparr>)\<rparr>,
           \<lparr>stopCh_closed = True, tick = False, plugin_state = (\<lambda>name. \<lparr>synced = True\<rparr>)\<rparr>]
     = (\<lparr>informerPlugins = [(''nodeInformer'', \<lparr>synced = False\<rparr>)], started = False,
         calls = [Setup ''nodeInformer'', Start ''nodeInformer'']\<rparr>,
        Finished (Some ''timed out waiting for states informer caches to sync''))"
  by (simp add: statesInformer_Run_def waitForSyncFunc_def startPlugins_def setupPlugins_def)

text \<open>
  Claim C6, amended. \<open>Run\<close> returns the error "timed out waiting for states informer
  caches to sync", leaving the started flag as it was, when the stop channel is closed
  before a poll of the barrier has found every registered plugin synced: at the first
  poll, which tests the plugins first, if a plugin is unsynced and the channel is closed;
  afterwards as soon as the channel is closed, whatever the plugins' state is by then.
  Otherwise, once a poll (the first one, or one at a tick of the poll timer with the
  channel open) finds every registered plugin synced, \<open>Run\<close> sets the started flag, then
  blocks until the stop channel is closed, and returns nil exactly when that happens.
\<close>

theorem statesInformer_Run_sync_barrier:
  assumes pre: "\<forall>ob \<in> set pre. \<not> stopCh_closed ob \<and> \<not> (tick ob \<and> registered_synced s ob)"
  shows "(registered_synced s first \<longrightarrow>
            statesInformer_Run s (first # later)
              = ((startPlugins (setupPlugins s))\<lparr>started := True\<rparr>,
                 if \<exists>ob \<in> set (first # later). stopCh_closed ob then Finished None else Blocked))
       \<and> (\<not> registered_synced s first \<and> stopCh_closed first \<longrightarrow>
            statesInformer_Run s (first # later)
              = (startPlugins (setupPlugins s),
                 Finished (Some ''timed out waiting for states informer caches to sync'')))
       \<and> (\<not> registered_synced s first \<and> \<not> stopCh_closed first \<and> stopCh_closed w \<longrightarrow>
            statesInformer_Run s (first # pre @ w # post)
              = (startPlugins (setupPlugins s),
                 Finished (Some ''timed out waiting for states informer caches to sync''))
            \<and> started (fst (statesInformer_Run s (first # pre @ w # post))) = started s)
       \<and> (\<not> registered_synced s first \<and> \<not> stopCh_closed first
            \<and> \<not> stopCh_closed w \<and> tick w \<and> registered_synced s w \<longrightarrow>
            statesInformer_Run s (first # pre @ w # post)
              = ((startPlugins (setupPlugins s))\<lparr>started := True\<rparr>,
                 if \<exists>ob \<in> set post. stopCh_closed ob then Finished None else Blocked))"
proof -
  let ?cs = "waitForSyncFunc (startPlugins (setupPlugins s))"
  have cs: "cacheSyncs_done ?cs ob = registered_synced s ob" for ob
    by (rule cacheSyncs_done_registered)
  have "\<forall>ob \<in> set pre. \<not> stopCh_closed ob \<and> \<not> (tick ob \<and> cacheSyncs_done ?cs ob)"
    using pre by (simp add: cs)
  then have skip: "poll_until (pre @ w # post) ?cs = poll_until (w # post) ?cs"
    by (rule poll_until_skip)
  have c1: "registered_synced s first \<longrightarrow>
            statesInformer_Run s (first # later)
              = ((startPlugins (setupPlugins s))\<lparr>started := True\<rparr>,
                 if \<exists>ob \<in> set (first # later). stopCh_closed ob then Finished None else Blocked)"
    by (simp add: statesInformer_Run_def Let_def cs receive_stopCh_iff)
  have c2: "\<not> registered_synced s first \<and> stopCh_closed first \<longrightarrow>
            statesInformer_Run s (first # later)
              = (startPlugins (setupPlugins s),
                 Finished (Some ''timed out waiting for states informer caches to sync''))"
    by (simp add: statesInformer_Run_def Let_def cs)
  have c3: "\<not> registered_synced s first \<and> \<not> stopCh_closed first \<and> stopCh_closed w \<longrightarrow>
            statesInformer_Run s (first # pre @ w # post)
              = (startPlugins (setupPlugins s),
                 Finished (Some ''timed out waiting for states informer caches to sync''))
            \<and> started (fst (statesInformer_Run s (first # pre @ w # post))) = started s"
    by (simp add: statesInformer_Run_def Let_def cs skip started_setup_start)
  have c4: "\<not> registered_synced s first \<and> \<not> stopCh_closed first
            \<and> \<not> stopCh_closed w \<and> tick w \<and> registered_synced s w \<longrightarrow>
            statesInformer_Run s (first # pre @ w # post)
              = ((startPlugins (setupPlugins s))\<lparr>started := True\<rparr>,
                 if \<exists>ob \<in> set post. stopCh_closed ob then Finished None else Blocked)"
    by (simp add: statesInformer_Run_def Let_def cs skip receive_stopCh_iff)
  from c1 c2 c3 c4 show ?thesis by blast
qed

theorem statesInformer_Run_witness:
  "statesInformer_Run
      \<lparr>informerPlugins = [(''nodeInformer'', \<lparr>synced = False\<rparr>)], started = False, calls = []\<rparr>
      [\<lparr>stopCh_closed = False, tick = False, plugin_state = (\<lambda>name. \<lparr>synced = False\<rparr>)\<rparr>,
       \<lparr>stopCh_closed = False, tick = True, plugin_state = (\<lambda>name. \<lparr>synced = False\<rparr>)\<rparr>,
       \<lparr>stopCh_closed = True, tick = False, plugin_state = (\<lambda>name. \<lparr>synced = False\<rparr>)\<rparr>]
     = (\<lparr>informerPlugins = [(''nodeInformer'', \<lparr>synced = False\<rparr>)], started = False,
         calls = [Setup ''nodeInformer'', Start ''nodeInformer'']\<rparr>,
        Finished (Some ''timed out waiting for states informer caches to sync''))
   \<and> statesInformer_Run
      \<lparr>informerPlugins = [(''nodeInformer'', \<lparr>synced = False\<rparr>)], started = False, calls = []\<rparr>
      [\<lparr>stopCh_closed = False, tick = False, plugin_state = (\<lambda>name. \<lparr>synced = False\<rparr>)\<rparr>,
       \<lparr>stopCh_closed = False, tick = True, plugin_state = (\<lambda>name. \<lparr>synced = False\<rparr>)\<rparr>,
       \<lparr>stopCh_closed = False, tick = True, plugin_state = (\<lambda>name. \<lparr>synced = True\<rparr>)\<rparr>,
       \<lparr>stopCh_closed = True, tick = False, plugin_state = (\<lambda>name. \<lparr>synced = True\<rparr>)\<rparr>]
     = (\<lparr>informerPlugins = [(''nodeInformer'', \<lparr>synced = False\<rparr>)], started = True,
         calls = [Setup ''nodeInformer'', Start ''nodeInformer'']\<rparr>,
        Finished None)
   \<and> statesInformer_Run
      \<lparr>informerPlugins = [(''nodeInformer'', \<lparr>synced = False\<rparr>)], started = False, calls = []\<rparr>
      [\<lparr>stopCh_closed = True, tick = False, plugin_state = (\<lambda>name. \<lparr>synced = True\<rparr>)\<rparr>]
     = (\<lparr>informerPlugins = [(''nodeInformer'', \<lparr>synced = False\<rparr>)], started = True,
         calls = [Setup ''nodeInformer'', Start ''nodeInformer'']\<rparr>,
        Finished None)
   \<and> statesInformer_Run
      \<lparr>informerPlugins = [(''nodeInformer'', \<lparr>synced = False\<rparr>)], started = False, calls = []\<rparr>
      [\<lparr>stopCh_closed = True, tick = False, plugin_state = (\<lambda>name. \<lparr>synced = False\<rparr>)\<rparr>]
     = (\<lparr>informerPlugins = [(''nodeInformer'', \<lparr>synced = False\<rparr>)], started = False,
         calls = [Setup ''nodeInformer'', Start ''nodeInformer'']\<rparr>,
        Finished (Some ''timed out waiting for states informer caches to sync''))
   \<and> statesInformer_Run
      \<lparr>informerPlugins = [(''nodeInformer'', \<lparr>synced = False\<rparr>)], started = False, calls = []\<rparr>
      [\<lparr>stopCh_closed = False, tick = False, plugin_state = (\<lambda>name. \<lparr>synced = False\<rparr>)\<rparr>,
       \<lparr>stopCh_closed = True, tick = True, plugin_state = (\<lambda>name. \<lparr>synced = True\<rparr>)\<rparr>]
     = (\<lparr>informerPlugins = [(''nodeInformer'', \<lparr>synced = False\<rparr>)], started = False,
         calls = [Setup ''nodeInformer'', Start ''nodeInformer'']\<rparr>,
        Finished (Some ''timed out waiting for states informer caches to sync''))"
proof -
  let ?s = "\<lparr>informerPlugins = [(''nodeInformer'', \<lparr>synced = False\<rparr>)], started = False, calls = []\<rparr>"
  let ?open_unsynced = "\<lparr>stopCh_closed = False, tick = False, plugin_state = (\<lambda>name. \<lparr>synced = False\<rparr>)\<rparr>"
  let ?tick_unsynced = "\<lparr>stopCh_closed = False, tick = True, plugin_state = (\<lambda>name. \<lparr>synced = False\<rparr>)\<rparr>"
  let ?tick_synced = "\<lparr>stopCh_closed = False, tick = True, plugin_state = (\<lambda>name. \<lparr>synced = True\<rparr>)\<rparr>"
  let ?closed_unsynced = "\<lparr>stopCh_closed = True, tick = False, plugin_state = (\<lambda>name. \<lparr>synced = False\<rparr>)\<rparr>"
  let ?closed_synced = "\<lparr>stopCh_closed = True, tick = False, plugin_state = (\<lambda>name. \<lparr>synced = True\<rparr>)\<rparr>"
  have unsynced: "\<not> registered_synced ?s ?open_unsynced" "\<not> registered_synced ?s ?tick_unsynced"
    "\<not> registered_synced ?s ?closed_unsynced"
    by (simp_all add: registered_synced_def statesInformer_HasSynced_def)
  have synced: "registered_synced ?s ?tick_synced" "registered_synced ?s ?closed_synced"
    by (simp_all add: registered_synced_def statesInformer_HasSynced_def)
  have pre: "\<forall>ob \<in> set [?tick_unsynced]. \<not> stopCh_closed ob \<and> \<not> (tick ob \<and> registered_synced ?s ob)"
    using unsynced by simp
  have s1: "startPlugins (setupPlugins ?s)
              = \<lparr>informerPlugins = [(''nodeInformer'', \<lparr>synced = False\<rparr>)], started = False,
                 calls = [Setup ''nodeInformer'', Start ''nodeInformer'']\<rparr>"
    by (simp add: startPlugins_def setupPlugins_def)
  have a: "statesInformer_Run ?s [?open_unsynced, ?tick_unsynced, ?closed_unsynced]
             = (startPlugins (setupPlugins ?s),
                Finished (Some ''timed out waiting for states informer caches to sync''))"
    using statesInformer_Run_sync_barrier [OF pre, of ?open_unsynced "[]" ?closed_unsynced "[]"] unsynced
    by simp
  have b: "statesInformer_Run ?s [?open_unsynced, ?tick_unsynced, ?tick_synced, ?closed_synced]
             = ((startPlugins (setupPlugins ?s))\<lparr>started := True\<rparr>, Finished None)"
    using statesInformer_Run_sync_barrier [OF pre, of ?open_unsynced "[]" ?tick_synced "[?closed_synced]"]
          unsynced synced
    by simp
  have c: "statesInformer_Run ?s [?closed_synced]
             = ((startPlugins (setupPlugins ?s))\<lparr>started := True\<rparr>, Finished None)"
    using statesInformer_Run_sync_barrier [OF pre, of ?closed_synced "[]" ?closed_synced "[]"] synced
    by simp
  have d: "statesInformer_Run ?s [?closed_unsynced]
             = (startPlugins (setupPlugins ?s),
                Finished (Some ''timed out waiting for states informer caches to sync''))"
    using statesInformer_Run_sync_barrier [OF pre, of ?closed_unsynced "[]" ?closed_synced "[]"] unsynced
    by simp
  have none: "\<forall>ob \<in> set []. \<not> stopCh_closed ob \<and> \<not> (tick ob \<and> registered_synced ?s ob)"
    by simp
  have e: "statesInformer_Run ?s
             [?open_unsynced,
              \<lparr>stopCh_closed = True, tick = True, plugin_state = (\<lambda>name. \<lparr>synced = True\<rparr>)\<rparr>]
             = (startPlugins (setupPlugins ?s),
                Finished (Some ''timed out waiting for states informer caches to sync''))"
    using statesInformer_Run_sync_barrier
            [OF none, of ?open_unsynced "[]"
               "\<lparr>stopCh_closed = True, tick = True, plugin_state = (\<lambda>name. \<lparr>synced = True\<rparr>)\<rparr>" "[]"]
          unsynced
    by simp
  from a b c d e show ?thesis
    by (simp only: s1) simp
qed

section \<open>The collection cycle of the node CPU info collector\<close>

lemma collect_cycles_append:
  "collect_cycles n (gs @ hs) = collect_cycles (collect_cycles n gs) hs"
  by (induction gs arbitrary: n) simp_all

text \<open>
  Claim C7. A cycle whose gathering fails returns the collector as it was: no cache
  slot, no cache write and no change of the started flag. A cycle whose gathering
  succeeds writes the cache once, under the collector's key, the started flag being
  untouched by the write, and sets the started flag afterwards. A failed cycle does not
  influence the cycles after it: the run of cycles ends in the same state as the run
  without the failed one. \<open>collectNodeInfo\<close> has no result through which the failure
  could reach the pipeline.
\<close>

theorem collection_cycle_contract:
  "collectNodeInfo n (info, Some err) = n
   \<and> collectNodeCPUInfo n (info, Some err) = (n, Some err)
   \<and> slots (storage (collectNodeInfo n (info, None)))
       = (slots (storage n))(NodeCPUInfoKey \<mapsto> \<lparr>ProcessorInfos = local_ProcessorInfos info,
                                                  TotalInfo = local_TotalInfo info\<rparr>)
   \<and> writes (storage (collectNodeInfo n (info, None)))
       = writes (storage n) @ [(NodeCPUInfoKey, \<lparr>ProcessorInfos = local_ProcessorInfos info,
                                                 TotalInfo = local_TotalInfo info\<rparr>)]
   \<and> collector_started (collectNodeInfo n (info, None))
   \<and> collectNodeInfo n (info, None)
       = (fst (collectNodeCPUInfo n (info, None)))\<lparr>collector_started := True\<rparr>
   \<and> collector_started (fst (collectNodeCPUInfo n (info, None))) = collector_started n
   \<and> snd (collectNodeCPUInfo n (info, None)) = None
   \<and> collect_cycles n (before @ [(info, Some err)] @ later) = collect_cycles n (before @ later)"
  by (simp add: collectNodeInfo_def collectNodeCPUInfo_def KVStorage_Set_def Let_def
                collect_cycles_append del: fun_upd_apply)

theorem collection_cycle_witness:
  "collector_started
     (collect_cycles
        \<lparr>collectInterval = 1000000000, storage = \<lparr>slots = Map.empty, writes = []\<rparr>,
         collector_started = False\<rparr>
        [(\<lparr>local_ProcessorInfos = [], local_TotalInfo = (0::nat)\<rparr>, Some ''open /proc/cpuinfo''),
         (\<lparr>local_ProcessorInfos = [0::nat, 1], local_TotalInfo = (2::nat)\<rparr>, None)])
   \<and> collectNodeInfo
        \<lparr>collectInterval = 1000000000, storage = \<lparr>slots = Map.empty, writes = []\<rparr>,
         collector_started = False\<rparr>
        (\<lparr>local_ProcessorInfos = ([] :: nat list), local_TotalInfo = (0::nat)\<rparr>, Some ''open /proc/cpuinfo'')
      = \<lparr>collectInterval = 1000000000, storage = \<lparr>slots = Map.empty, writes = []\<rparr>,
         collector_started = False\<rparr>"
proof -
  let ?n = "\<lparr>collectInterval = 1000000000,
             storage = \<lparr>slots = (Map.empty :: MetricKey \<rightharpoonup> (nat, nat) NodeCPUInfo), writes = []\<rparr>,
             collector_started = False\<rparr>"
  let ?bad = "\<lparr>local_ProcessorInfos = ([] :: nat list), local_TotalInfo = (0::nat)\<rparr>"
  let ?good = "\<lparr>local_ProcessorInfos = [0::nat, 1], local_TotalInfo = (2::nat)\<rparr>"
  note c = collection_cycle_contract [of ?n ?bad "''open /proc/cpuinfo''" "[]" "[(?good, None)]"]
  note d = collection_cycle_contract [of ?n ?good "''x''" "[]" "[]"]
  have "collect_cycles ?n [(?bad, Some ''open /proc/cpuinfo''), (?good, None)]
          = collectNodeInfo ?n (?good, None)"
    using c by simp
  moreover have "collector_started (collectNodeInfo ?n (?good, None))"
    using d by simp
  moreover have "collectNodeInfo ?n (?bad, Some ''open /proc/cpuinfo'') = ?n"
    using c by simp
  ultimately show ?thesis by simp
qed

section \<open>metricAdvisor.Run: the interval threshold\<close>

lemma setup_loop_eq:
  "setup_loop cs = map (\<lambda>(name, c). (name, if Enabled c then c\<lparr>SetupCalls := Suc (SetupCalls c)\<rparr> else c)) cs"
  by (induction cs rule: setup_loop.induct) simp_all

lemma run_loop_eq:
  "run_loop cs = map (\<lambda>(name, c). (name, if Enabled c then c\<lparr>RunCalls := Suc (RunCalls c)\<rparr> else c)) cs"
  by (induction cs rule: run_loop.induct) simp_all

text \<open>
  Claim C8. If the collection interval is less than one second, \<open>Run\<close> returns nil at
  once, whatever the stop channel does, and no collector is set up or started. Otherwise
  \<open>Setup\<close> is called once on every enabled collector and \<open>Run\<close> is launched once for
  every enabled collector, the disabled ones are left alone, and \<open>Run\<close> returns nil when
  the stop channel is closed.
\<close>

theorem metricAdvisor_Run_threshold:
  "(CollectResUsedInterval (options_Config m) <s time_Second
      \<longrightarrow> metricAdvisor_Run m stopCh = (m, Finished None))
   \<and> (\<not> CollectResUsedInterval (options_Config m) <s time_Second
      \<longrightarrow> context_Collectors (fst (metricAdvisor_Run m stopCh))
            = map (\<lambda>(name, c).
                     (name, if Enabled c
                            then c\<lparr>SetupCalls := Suc (SetupCalls c), RunCalls := Suc (RunCalls c)\<rparr>
                            else c))
                  (context_Collectors m)
          \<and> options_Config (fst (metricAdvisor_Run m stopCh)) = options_Config m
          \<and> snd (metricAdvisor_Run m stopCh)
              = (if \<exists>closed \<in> set stopCh. closed then Finished None else Blocked))"
  by (auto simp: metricAdvisor_Run_def metricAdvisor_setup_def Let_def setup_loop_eq run_loop_eq
                 receive_stopCh_iff split: prod.splits)

theorem metricAdvisor_Run_witness:
  "metricAdvisor_Run
      \<lparr>options_Config = \<lparr>CollectResUsedInterval = 999999999\<rparr>,
       context_Collectors =
         [(''NodeInfoCollector'', \<lparr>Enabled = True, Started = False, SetupCalls = 0, RunCalls = 0\<rparr>)]\<rparr>
      []
     = (\<lparr>options_Config = \<lparr>CollectResUsedInterval = 999999999\<rparr>,
         context_Collectors =
           [(''NodeInfoCollector'', \<lparr>Enabled = True, Started = False, SetupCalls = 0, RunCalls = 0\<rparr>)]\<rparr>,
        Finished None)
   \<and> context_Collectors (fst (metricAdvisor_Run
      \<lparr>options_Config = \<lparr>CollectResUsedInterval = 1000000000\<rparr>,
       context_Collectors =
         [(''NodeInfoCollector'', \<lparr>Enabled = True, Started = False, SetupCalls = 0, RunCalls = 0\<rparr>),
          (''Off'', \<lparr>Enabled = False, Started = False, SetupCalls = 0, RunCalls = 0\<rparr>)]\<rparr>
      [False, True]))
     = [(''NodeInfoCollector'', \<lparr>Enabled = True, Started = False, SetupCalls = 1, RunCalls = 1\<rparr>),
        (''Off'', \<lparr>Enabled = False, Started = False, SetupCalls = 0, RunCalls = 0\<rparr>)]
   \<and> snd (metricAdvisor_Run
      \<lparr>options_Config = \<lparr>CollectResUsedInterval = 1000000000\<rparr>,
       context_Collectors =
         [(''NodeInfoCollector'', \<lparr>Enabled = True, Started = False, SetupCalls = 0, RunCalls = 0\<rparr>),
          (''Off'', \<lparr>Enabled = False, Started = False, SetupCalls = 0, RunCalls = 0\<rparr>)]\<rparr>
      [False, True]) = Finished None"
proof -
  let ?off = "\<lparr>options_Config = \<lparr>CollectResUsedInterval = 999999999\<rparr>,
       context_Collectors =
         [(''NodeInfoCollector'', \<lparr>Enabled = True, Started = False, SetupCalls = 0, RunCalls = 0\<rparr>)]\<rparr>"
  let ?on = "\<lparr>options_Config = \<lparr>CollectResUsedInterval = 1000000000\<rparr>,
       context_Collectors =
         [(''NodeInfoCollector'', \<lparr>Enabled = True, Started = False, SetupCalls = 0, RunCalls = 0\<rparr>),
          (''Off'', \<lparr>Enabled = False, Started = False, SetupCalls = 0, RunCalls = 0\<rparr>)]\<rparr>"
  have lt: "(999999999 :: 64 word) <s time_Second"
    by (simp add: time_Second_def word_sless_alt)
  have ge: "\<not> (1000000000 :: 64 word) <s time_Second"
    by (simp add: time_Second_def word_sless_alt)
  have a: "metricAdvisor_Run ?off [] = (?off, Finished None)"
    using metricAdvisor_Run_threshold [of ?off "[]"] lt by simp
  have b: "context_Collectors (fst (metricAdvisor_Run ?on [False, True]))
     = [(''NodeInfoCollector'', \<lparr>Enabled = True, Started = False, SetupCalls = 1, RunCalls = 1\<rparr>),
        (''Off'', \<lparr>Enabled = False, Started = False, SetupCalls = 0, RunCalls = 0\<rparr>)]"
    using metricAdvisor_Run_threshold [of ?on "[False, True]"] ge by simp
  have c: "snd (metricAdvisor_Run ?on [False, True]) = Finished None"
    using metricAdvisor_Run_threshold [of ?on "[False, True]"] ge by simp
  from a b c show ?thesis by blast
qed

end
